theory Spec2Isabelle
  imports Complex_Main "HOL-Library.AList" "HOL-Library.Sublist"
begin

section \<open>Data model (models/migration.py, models/connection.py)\<close>

text \<open>
  Python's unbounded \<open>int\<close> is \<open>int\<close>; \<open>float\<close> is idealised as \<open>real\<close> (IEEE
  rounding and overflow are not modelled); a \<open>datetime\<close> is a \<open>real\<close> number of
  seconds, and \<open>datetime.now()\<close> is a parameter \<open>now\<close> of every operation that reads
  the clock. Optional fields (\<open>X | None\<close>) are \<open>option\<close>s.
\<close>

datatype MigrationStatus = QUEUED | RUNNING | PAUSED | COMPLETED | FAILED | CANCELLED

record TableSelection =
  schema_name :: string
  table_name :: string
  row_count :: "int option"
  size_bytes :: "int option"

definition full_name :: "TableSelection \<Rightarrow> string" where
  "full_name t = schema_name t @ ''.'' @ table_name t"

record MigrationProgress =
  total_tables :: int
  completed_tables :: int
  current_table :: "string option"
  current_table_progress :: real
  total_rows :: int
  migrated_rows :: int
  rows_per_second :: real
  eta_seconds :: "int option"

text \<open>\<open>MigrationProgress(total_tables=n)\<close>: every other field at its default.\<close>

definition new_progress :: "int \<Rightarrow> MigrationProgress" where
  "new_progress n = \<lparr>total_tables = n, completed_tables = 0, current_table = None,
     current_table_progress = 0, total_rows = 0, migrated_rows = 0, rows_per_second = 0,
     eta_seconds = None\<rparr>"

text \<open>The property \<open>MigrationProgress.percentage\<close>; \<open>/\<close> is Python's true division.\<close>

definition percentage :: "MigrationProgress \<Rightarrow> real" where
  "percentage p =
     (if total_rows p = 0 then
        (if total_tables p = 0 then 0
         else (real_of_int (completed_tables p) / real_of_int (total_tables p)) * 100)
      else (real_of_int (migrated_rows p) / real_of_int (total_rows p)) * 100)"

text \<open>
  The percentage in the words of the specification (section 4.6), for comparison with
  \<open>percentage\<close>: rows when \<open>total_rows > 0\<close>, else tables when \<open>total_tables > 0\<close>,
  else 0.
\<close>

definition percentage_spec :: "MigrationProgress \<Rightarrow> real" where
  "percentage_spec p =
     (if total_rows p > 0 then
        (real_of_int (migrated_rows p) / real_of_int (total_rows p)) * 100
      else if total_tables p > 0 then
        (real_of_int (completed_tables p) / real_of_int (total_tables p)) * 100
      else 0)"

record Migration =
  migration_id :: string
  source_connection_id :: string
  target_connection_id :: string
  staging_area_id :: string
  tables :: "TableSelection list"
  target_schema :: "string option"
  status :: MigrationStatus
  progress :: MigrationProgress
  started_at :: "real option"
  completed_at :: "real option"
  error :: "string option"
  cli_process_id :: "nat option"

record MigrationConfig =
  cfg_source_connection_id :: string
  cfg_target_connection_id :: string
  cfg_staging_area_id :: string
  cfg_tables :: "TableSelection list"
  cfg_target_schema :: "string option"

datatype SourceType = POSTGRES | MYSQL | ORACLE | SQLSERVER | JDBC

fun source_type_value :: "SourceType \<Rightarrow> string" where
  "source_type_value POSTGRES = ''postgres''"
| "source_type_value MYSQL = ''mysql''"
| "source_type_value ORACLE = ''oracle''"
| "source_type_value SQLSERVER = ''sqlserver''"
| "source_type_value JDBC = ''jdbc''"

text \<open>
  The fields of the two connection models that \<open>start_migration\<close> reads. \<open>password\<close>
  is the content of the \<open>SecretStr\<close> (\<open>get_secret_value()\<close>).
\<close>

record SourceConnection =
  src_type :: SourceType
  src_host :: string
  src_port :: int
  src_database :: string
  src_username :: string
  src_password :: string

record SnowflakeConnection =
  sf_account :: string
  sf_warehouse :: string
  sf_database :: string
  sf_schema_name :: string
  sf_username :: string
  sf_password :: string

text \<open>
  \<open>ConnectionManager\<close>: its two dictionaries; \<open>get_source_connection\<close> and
  \<open>get_snowflake_connection\<close> are \<open>dict.get\<close>.
\<close>

record ConnectionManager =
  source_connections :: "string \<rightharpoonup> SourceConnection"
  snowflake_connections :: "string \<rightharpoonup> SnowflakeConnection"

definition get_source_connection :: "ConnectionManager \<Rightarrow> string \<Rightarrow> SourceConnection option" where
  "get_source_connection cm cid = source_connections cm cid"

definition get_snowflake_connection :: "ConnectionManager \<Rightarrow> string \<Rightarrow> SnowflakeConnection option" where
  "get_snowflake_connection cm cid = snowflake_connections cm cid"

section \<open>Python helpers\<close>

text \<open>\<open>str(n)\<close> for an integer: decimal digits, a leading minus sign when negative.\<close>

fun str_nat :: "nat \<Rightarrow> string" where
  "str_nat n =
     (if n < 10 then [''0123456789'' ! n]
      else str_nat (n div 10) @ [''0123456789'' ! (n mod 10)])"

declare str_nat.simps [simp del]

definition str_int :: "int \<Rightarrow> string" where
  "str_int i = (if i < 0 then CHR ''-'' # str_nat (nat (- i)) else str_nat (nat i))"

text \<open>\<open>",".join(xs)\<close>.\<close>

fun join_comma :: "string list \<Rightarrow> string" where
  "join_comma [] = []"
| "join_comma [x] = x"
| "join_comma (x # y # ys) = x @ '','' @ join_comma (y # ys)"

text \<open>\<open>int(x)\<close> for a float: truncation towards zero.\<close>

definition py_int :: "real \<Rightarrow> int" where
  "py_int x = (if x \<ge> 0 then \<lfloor>x\<rfloor> else \<lceil>x\<rceil>)"

text \<open>
  \<open>d.update(e)\<close> on insertion-ordered dictionaries kept as association lists: an
  existing key keeps its place and takes the new value, a new key is appended.
\<close>

definition dict_update :: "('k \<times> 'v) list \<Rightarrow> ('k \<times> 'v) list \<Rightarrow> ('k \<times> 'v) list" where
  "dict_update d e = foldl (\<lambda>acc (k, v). AList.update k v acc) d e"

section \<open>The wire protocol as the engine reads it\<close>

text \<open>
  One line of a child stream, described by what
  \<open>json.loads(line.decode().strip())\<close> does with it (both are library calls, so their
  outcome is the input of the model):
  \<^item> \<open>decode\<close> raises \<open>UnicodeDecodeError\<close> (with the text of the exception),
  \<^item> \<open>json.loads\<close> raises \<open>JSONDecodeError\<close>,
  \<^item> \<open>json.loads\<close> returns a value that is not a \<open>dict\<close> (a number, string, list,
    boolean or null), given by the name of its Python type,
  \<^item> \<open>json.loads\<close> returns a \<open>dict\<close>.
  Of a \<open>dict\<close> the model keeps the six keys the engine reads, each absent (\<open>None\<close>) or
  present with a value of the type the wire protocol gives it; a \<open>type\<close> outside the
  protocol is any other string. Values of other JSON types under these keys are outside
  the model.
\<close>

datatype wire_dict = Dict
  (d_type: "string option")
  (d_table: "string option")
  (d_rows_migrated: "int option")
  (d_total_rows: "int option")
  (d_percentage: "real option")
  (d_message: "string option")

datatype line =
    Raises_UnicodeDecodeError string
  | Raises_JSONDecodeError
  | Loads_NonDict string
  | Loads_Dict wire_dict

text \<open>\<open>data.get(key, default)\<close>.\<close>

definition get_default :: "'a option \<Rightarrow> 'a \<Rightarrow> 'a" where
  "get_default v d = (case v of None \<Rightarrow> d | Some x \<Rightarrow> x)"

text \<open>
  \<open>MigrationEngine._parse_progress(data, migration)\<close>. The clock is read inside, so
  \<open>now\<close> is a parameter. The three branches of the \<open>if/elif\<close> chain, then the rate
  and ETA block.
\<close>

definition apply_message :: "wire_dict \<Rightarrow> MigrationProgress \<Rightarrow> MigrationProgress" where
  "apply_message data p =
     (let msg_type = get_default (d_type data) '''' in
      if msg_type = ''progress'' then
        p\<lparr>current_table := d_table data,
          migrated_rows := get_default (d_rows_migrated data) (migrated_rows p),
          total_rows := get_default (d_total_rows data) (total_rows p),
          current_table_progress := get_default (d_percentage data) 0\<rparr>
      else if msg_type = ''table_complete'' then
        p\<lparr>completed_tables := completed_tables p + 1, current_table := None\<rparr>
      else if msg_type = ''complete'' then
        p\<lparr>completed_tables := total_tables p, migrated_rows := total_rows p\<rparr>
      else p)"

definition update_rate :: "real option \<Rightarrow> real \<Rightarrow> MigrationProgress \<Rightarrow> MigrationProgress" where
  "update_rate started now p =
     (case started of
        None \<Rightarrow> p
      | Some t0 \<Rightarrow>
          if migrated_rows p > 0 then
            (let elapsed = now - t0 in
             if elapsed > 0 then
               (let p1 = p\<lparr>rows_per_second := real_of_int (migrated_rows p) / elapsed\<rparr>;
                    remaining_rows = total_rows p1 - migrated_rows p1
                in if rows_per_second p1 > 0
                   then p1\<lparr>eta_seconds :=
                          Some (py_int (real_of_int remaining_rows / rows_per_second p1))\<rparr>
                   else p1)
             else p)
          else p)"

definition parse_progress :: "wire_dict \<Rightarrow> Migration \<Rightarrow> real \<Rightarrow> MigrationProgress" where
  "parse_progress data m now = update_rate (started_at m) now (apply_message data (progress m))"

section \<open>The engine (services/migration_engine.py)\<close>

text \<open>
  The exceptions the control operations raise, by Python class and message:
  \<open>KeyError("Migration not found: ...")\<close>,
  \<open>ValueError("Cannot start migration in ... state")\<close>,
  \<open>ValueError("Source or target connection not found")\<close>,
  \<open>ValueError("Maximum concurrent migrations (...) reached")\<close> and
  \<open>ValueError("Can only pause running migrations")\<close>.
\<close>

datatype engine_error =
    KeyError_not_found string
  | ValueError_cannot_start MigrationStatus
  | ValueError_connection_not_found
  | ValueError_maximum_concurrent int
  | ValueError_can_only_pause_running

text \<open>
  What an operation does to an OS process through a \<open>subprocess.Popen\<close> handle (a
  handle is the process id): \<open>send_signal(SIGINT)\<close>, \<open>terminate()\<close>,
  \<open>wait(timeout=5)\<close>, \<open>kill()\<close>. An operation returns the list of these calls in the
  order it makes them.
\<close>

datatype proc_action = Send_SIGINT nat | Terminate nat | Wait_5s nat | Kill nat

text \<open>
  The state of a \<open>MigrationEngine\<close>. The three dictionaries are association lists in
  insertion order; an \<open>asyncio.Queue\<close> is the list of the snapshots put on it. The
  two configuration values the engine reads are fields of the state.
\<close>

record MigrationEngine =
  migrations :: "(string \<times> Migration) list"
  processes :: "(string \<times> nat) list"
  progress_queues :: "(string \<times> MigrationProgress list) list"
  max_concurrent_migrations :: int
  cli_path :: string

text \<open>\<open>MigrationEngine.__init__\<close>: all three dictionaries empty.\<close>

definition init_engine :: "int \<Rightarrow> string \<Rightarrow> MigrationEngine" where
  "init_engine limit path = \<lparr>migrations = [], processes = [], progress_queues = [],
     max_concurrent_migrations = limit, cli_path = path\<rparr>"

text \<open>
  A \<open>Migration\<close> object is shared between the dictionary and the background task that
  runs it, and is only ever mutated in place: \<open>mutate f mid\<close> applies \<open>f\<close> to the
  object stored under \<open>mid\<close>.
\<close>

definition mutate :: "(Migration \<Rightarrow> Migration) \<Rightarrow> string \<Rightarrow> MigrationEngine \<Rightarrow> MigrationEngine" where
  "mutate f mid eng = eng\<lparr>migrations := AList.map_entry mid f (migrations eng)\<rparr>"

definition get_migration :: "MigrationEngine \<Rightarrow> string \<Rightarrow> Migration option" where
  "get_migration eng mid = map_of (migrations eng) mid"

definition list_migrations :: "MigrationEngine \<Rightarrow> Migration list" where
  "list_migrations eng = map snd (migrations eng)"

definition is_active :: "Migration \<Rightarrow> bool" where
  "is_active m = (status m = RUNNING \<or> status m = QUEUED \<or> status m = PAUSED)"

definition list_active_migrations :: "MigrationEngine \<Rightarrow> Migration list" where
  "list_active_migrations eng = filter is_active (map snd (migrations eng))"

text \<open>\<open>create_migration\<close>; \<open>new_id\<close> is the value \<open>uuid4()\<close> returns.\<close>

definition create_migration :: "MigrationEngine \<Rightarrow> string \<Rightarrow> MigrationConfig \<Rightarrow> MigrationEngine \<times> Migration" where
  "create_migration eng new_id config =
     (let migration = \<lparr>migration_id = new_id,
            source_connection_id = cfg_source_connection_id config,
            target_connection_id = cfg_target_connection_id config,
            staging_area_id = cfg_staging_area_id config,
            tables = cfg_tables config,
            target_schema = cfg_target_schema config,
            status = QUEUED,
            progress = new_progress (int (length (cfg_tables config))),
            started_at = None, completed_at = None, error = None, cli_process_id = None\<rparr>
      in (eng\<lparr>migrations := AList.update new_id migration (migrations eng),
              progress_queues := AList.update new_id [] (progress_queues eng)\<rparr>,
          migration))"

text \<open>The argument list and the credential environment built by \<open>start_migration\<close>.\<close>

definition build_args :: "SourceConnection \<Rightarrow> SnowflakeConnection \<Rightarrow> Migration \<Rightarrow> string list" where
  "build_args source_conn target_conn m =
     [''migrate'',
      ''--source-type'', source_type_value (src_type source_conn),
      ''--source-host'', src_host source_conn,
      ''--source-port'', str_int (src_port source_conn),
      ''--source-database'', src_database source_conn,
      ''--source-user'', src_username source_conn,
      ''--tables'', join_comma (map full_name (tables m)),
      ''--target-account'', sf_account target_conn,
      ''--target-warehouse'', sf_warehouse target_conn,
      ''--target-database'', sf_database target_conn,
      ''--target-schema'',
        (case target_schema m of
           None \<Rightarrow> sf_schema_name target_conn
         | Some s \<Rightarrow> if s = [] then sf_schema_name target_conn else s),
      ''--target-user'', sf_username target_conn,
      ''--staging-id'', staging_area_id m,
      ''--progress-format'', ''json'']"

definition build_env :: "SourceConnection \<Rightarrow> SnowflakeConnection \<Rightarrow> (string \<times> string) list" where
  "build_env source_conn target_conn =
     [(''SNOWMIGRATE_SOURCE_PASSWORD'', src_password source_conn),
      (''SNOWMIGRATE_TARGET_PASSWORD'', sf_password target_conn)]"

text \<open>
  \<open>start_migration\<close>. An exception leaves the mutations made before it in place, so
  the operation returns the state together with the error or, on success, the arguments
  of the background task it creates (\<open>_run_migration(migration_id, args, env)\<close>).
\<close>

type_synonym task = "string \<times> string list \<times> (string \<times> string) list"

definition start_migration :: "MigrationEngine \<Rightarrow> ConnectionManager \<Rightarrow> string \<Rightarrow> real \<Rightarrow> MigrationEngine \<times> (engine_error + task)" where
  "start_migration eng cm mid now =
     (case get_migration eng mid of
        None \<Rightarrow> (eng, Inl (KeyError_not_found mid))
      | Some m \<Rightarrow>
          if status m \<noteq> QUEUED \<and> status m \<noteq> PAUSED
          then (eng, Inl (ValueError_cannot_start (status m)))
          else
            (case get_source_connection cm (source_connection_id m) of
               None \<Rightarrow> (eng, Inl ValueError_connection_not_found)
             | Some source_conn \<Rightarrow>
                (case get_snowflake_connection cm (target_connection_id m) of
                   None \<Rightarrow> (eng, Inl ValueError_connection_not_found)
                 | Some target_conn \<Rightarrow>
                    (let eng1 = mutate (\<lambda>x. x\<lparr>status := RUNNING, started_at := Some now\<rparr>) mid eng;
                         active_count = int (length (list_active_migrations eng1))
                     in if active_count > max_concurrent_migrations eng1
                        then (mutate (\<lambda>x. x\<lparr>status := QUEUED\<rparr>) mid eng1,
                              Inl (ValueError_maximum_concurrent (max_concurrent_migrations eng1)))
                        else (eng1,
                              Inr (mid,
                                   build_args source_conn target_conn
                                     (m\<lparr>status := RUNNING, started_at := Some now\<rparr>),
                                   build_env source_conn target_conn))))))"

text \<open>\<open>pause_migration\<close>: returns the calls made on the process handle.\<close>

definition pause_migration :: "MigrationEngine \<Rightarrow> string \<Rightarrow> MigrationEngine \<times> (engine_error + proc_action list)" where
  "pause_migration eng mid =
     (case get_migration eng mid of
        None \<Rightarrow> (eng, Inl (KeyError_not_found mid))
      | Some m \<Rightarrow>
          if status m \<noteq> RUNNING then (eng, Inl ValueError_can_only_pause_running)
          else (mutate (\<lambda>x. x\<lparr>status := PAUSED\<rparr>) mid eng,
                Inr (case map_of (processes eng) mid of
                       None \<Rightarrow> []
                     | Some process \<Rightarrow> [Send_SIGINT process])))"

text \<open>\<open>resume_migration\<close> is a second \<open>start_migration\<close>.\<close>

definition resume_migration :: "MigrationEngine \<Rightarrow> ConnectionManager \<Rightarrow> string \<Rightarrow> real \<Rightarrow> MigrationEngine \<times> (engine_error + task)" where
  "resume_migration eng cm mid now = start_migration eng cm mid now"

text \<open>
  \<open>cancel_migration\<close>. \<open>timed_out\<close> says whether \<open>process.wait(timeout=5)\<close> raises
  \<open>TimeoutExpired\<close>; \<open>now\<close> is the clock when the completion timestamp is taken.
\<close>

definition cancel_migration :: "MigrationEngine \<Rightarrow> string \<Rightarrow> bool \<Rightarrow> real \<Rightarrow> MigrationEngine \<times> (engine_error + proc_action list)" where
  "cancel_migration eng mid timed_out now =
     (case get_migration eng mid of
        None \<Rightarrow> (eng, Inl (KeyError_not_found mid))
      | Some m \<Rightarrow>
          (mutate (\<lambda>x. x\<lparr>status := CANCELLED, completed_at := Some now\<rparr>) mid eng,
           Inr (case map_of (processes eng) mid of
                  None \<Rightarrow> []
                | Some process \<Rightarrow>
                    [Terminate process, Wait_5s process] @
                    (if timed_out then [Kill process] else []))))"

section \<open>The background task \<open>_run_migration\<close>\<close>

text \<open>
  The task runs between \<open>await\<close>s; on the single-threaded event loop each stretch
  between two suspension points is atomic, and control operations interleave with the
  task only at those points. The task is therefore a sequence of steps on the engine
  state: the child was spawned, one line of stdout was read, one line of stderr was
  read, the child exited; or an exception ended the task. Every step looks the job up by
  its id, which reaches the same object the task holds.
\<close>

text \<open>\<open>process_env = os.environ.copy(); if env: process_env.update(env)\<close>.\<close>

definition run_process_env :: "(string \<times> string) list \<Rightarrow> (string \<times> string) list \<Rightarrow> (string \<times> string) list" where
  "run_process_env os_environ env = (if env = [] then os_environ else dict_update os_environ env)"

text \<open>The \<open>finally\<close> block.\<close>

definition run_finally :: "string \<Rightarrow> real \<Rightarrow> MigrationEngine \<Rightarrow> MigrationEngine" where
  "run_finally mid now eng =
     (mutate (\<lambda>x. x\<lparr>completed_at := Some now\<rparr>) mid eng)
       \<lparr>processes := AList.delete mid (processes eng)\<rparr>"

text \<open>\<open>create_subprocess_exec\<close> returned: \<open>migration.cli_process_id = proc.pid\<close>.\<close>

definition run_spawned :: "string \<Rightarrow> nat \<Rightarrow> MigrationEngine \<Rightarrow> MigrationEngine" where
  "run_spawned mid pid eng = mutate (\<lambda>x. x\<lparr>cli_process_id := Some pid\<rparr>) mid eng"

text \<open>\<open>except FileNotFoundError\<close>, then \<open>finally\<close>.\<close>

definition run_file_not_found :: "string \<Rightarrow> real \<Rightarrow> MigrationEngine \<Rightarrow> MigrationEngine" where
  "run_file_not_found mid now eng =
     run_finally mid now
       (mutate (\<lambda>x. x\<lparr>status := FAILED,
                      error := Some (''CLI tool not found at '' @ cli_path eng)\<rparr>) mid eng)"

text \<open>\<open>except Exception as e\<close> (\<open>msg\<close> is \<open>str(e)\<close>), then \<open>finally\<close>.\<close>

definition run_exception :: "string \<Rightarrow> string \<Rightarrow> real \<Rightarrow> MigrationEngine \<Rightarrow> MigrationEngine" where
  "run_exception mid msg now eng =
     run_finally mid now (mutate (\<lambda>x. x\<lparr>status := FAILED, error := Some msg\<rparr>) mid eng)"

text \<open>
  The body of the loop of \<open>read_progress\<close> for one line. \<open>Inl msg\<close>: an exception
  with text \<open>msg\<close> leaves the loop (only \<open>JSONDecodeError\<close> is caught there);
  \<open>data.get\<close> on a value that is not a dict raises \<open>AttributeError\<close>.
\<close>

definition attribute_error_get :: "string \<Rightarrow> string" where
  "attribute_error_get ty = [CHR 0x27] @ ty @ [CHR 0x27] @ '' object has no attribute '' @
     [CHR 0x27] @ ''get'' @ [CHR 0x27]"

definition read_progress :: "string \<Rightarrow> line \<Rightarrow> real \<Rightarrow> MigrationEngine \<Rightarrow> string + MigrationEngine" where
  "read_progress mid lin now eng =
     (case get_migration eng mid of
        None \<Rightarrow> Inr eng
      | Some m \<Rightarrow>
         (case lin of
            Raises_UnicodeDecodeError msg \<Rightarrow> Inl msg
          | Raises_JSONDecodeError \<Rightarrow> Inr eng
          | Loads_NonDict ty \<Rightarrow> Inl (attribute_error_get ty)
          | Loads_Dict data \<Rightarrow>
              (let p = parse_progress data m now;
                   eng1 = mutate (\<lambda>x. x\<lparr>progress := p\<rparr>) mid eng
               in Inr (eng1\<lparr>progress_queues :=
                          AList.map_entry mid (\<lambda>q. q @ [p]) (progress_queues eng1)\<rparr>))))"

text \<open>The body of the loop of \<open>read_errors\<close> for one line.\<close>

definition read_errors :: "string \<Rightarrow> line \<Rightarrow> MigrationEngine \<Rightarrow> string + MigrationEngine" where
  "read_errors mid lin eng =
     (case get_migration eng mid of
        None \<Rightarrow> Inr eng
      | Some m \<Rightarrow>
         (case lin of
            Raises_UnicodeDecodeError msg \<Rightarrow> Inl msg
          | Raises_JSONDecodeError \<Rightarrow> Inr eng
          | Loads_NonDict ty \<Rightarrow> Inl (attribute_error_get ty)
          | Loads_Dict data \<Rightarrow>
              (if d_type data = Some ''error''
               then Inr (mutate (\<lambda>x. x\<lparr>error :=
                           Some (get_default (d_message data) ''Unknown error'')\<rparr>) mid eng)
               else Inr eng)))"

text \<open>
  One line as \<open>_run_migration\<close> sees it: an exception that leaves a reader leaves
  \<open>asyncio.gather\<close> too and reaches \<open>except Exception\<close>.
\<close>

definition run_stdout_line :: "string \<Rightarrow> line \<Rightarrow> real \<Rightarrow> MigrationEngine \<Rightarrow> MigrationEngine" where
  "run_stdout_line mid lin now eng =
     (case read_progress mid lin now eng of
        Inr eng1 \<Rightarrow> eng1
      | Inl msg \<Rightarrow> run_exception mid msg now eng)"

definition run_stderr_line :: "string \<Rightarrow> line \<Rightarrow> real \<Rightarrow> MigrationEngine \<Rightarrow> MigrationEngine" where
  "run_stderr_line mid lin now eng =
     (case read_errors mid lin eng of
        Inr eng1 \<Rightarrow> eng1
      | Inl msg \<Rightarrow> run_exception mid msg now eng)"

text \<open>
  \<open>proc.wait()\<close> returned with \<open>returncode\<close>: the status, the synthesised message
  (\<open>not migration.error\<close> holds for \<open>None\<close> and for the empty string), then
  \<open>finally\<close>.
\<close>

definition on_exit :: "int \<Rightarrow> Migration \<Rightarrow> Migration" where
  "on_exit returncode m =
     (if returncode = 0 then m\<lparr>status := COMPLETED\<rparr>
      else (let m1 = m\<lparr>status := FAILED\<rparr>
            in if error m1 = None \<or> error m1 = Some []
               then m1\<lparr>error := Some (''CLI exited with code '' @ str_int returncode)\<rparr>
               else m1))"

definition run_exit :: "string \<Rightarrow> int \<Rightarrow> real \<Rightarrow> MigrationEngine \<Rightarrow> MigrationEngine" where
  "run_exit mid returncode now eng = run_finally mid now (mutate (on_exit returncode) mid eng)"

section \<open>Traces\<close>

text \<open>
  Everything that can happen to an engine: the control operations called by the screens
  and the steps of the background tasks, in any interleaving.
\<close>

datatype operation =
    Create string MigrationConfig
  | Start ConnectionManager string real
  | Pause string
  | Cancel string bool real
  | Spawned string nat
  | Spawn_file_not_found string real
  | Task_exception string string real
  | Stdout_line string line real
  | Stderr_line string line real
  | Exited string int real

fun step :: "MigrationEngine \<Rightarrow> operation \<Rightarrow> MigrationEngine" where
  "step eng (Create new_id config) = fst (create_migration eng new_id config)"
| "step eng (Start cm mid now) = fst (start_migration eng cm mid now)"
| "step eng (Pause mid) = fst (pause_migration eng mid)"
| "step eng (Cancel mid timed_out now) = fst (cancel_migration eng mid timed_out now)"
| "step eng (Spawned mid pid) = run_spawned mid pid eng"
| "step eng (Spawn_file_not_found mid now) = run_file_not_found mid now eng"
| "step eng (Task_exception mid msg now) = run_exception mid msg now eng"
| "step eng (Stdout_line mid lin now) = run_stdout_line mid lin now eng"
| "step eng (Stderr_line mid lin now) = run_stderr_line mid lin now eng"
| "step eng (Exited mid returncode now) = run_exit mid returncode now eng"

definition run_ops :: "MigrationEngine \<Rightarrow> operation list \<Rightarrow> MigrationEngine" where
  "run_ops eng ops = foldl step eng ops"

section \<open>A concrete engine\<close>

text \<open>
  The job of \<open>tests/test_services.py\<close> (two tables, no target schema), the two
  connections it names, and an engine in which that job was created, started and its
  child process spawned.
\<close>

definition example_tables :: "TableSelection list" where
  "example_tables =
     [\<lparr>schema_name = ''public'', table_name = ''users'', row_count = None, size_bytes = None\<rparr>,
      \<lparr>schema_name = ''public'', table_name = ''orders'', row_count = None, size_bytes = None\<rparr>]"

definition example_config :: MigrationConfig where
  "example_config = \<lparr>cfg_source_connection_id = ''source-1'',
     cfg_target_connection_id = ''target-1'', cfg_staging_area_id = ''s3-prod'',
     cfg_tables = example_tables, cfg_target_schema = None\<rparr>"

definition example_source :: SourceConnection where
  "example_source = \<lparr>src_type = POSTGRES, src_host = ''localhost'', src_port = 5432,
     src_database = ''db'', src_username = ''user'', src_password = ''source-secret''\<rparr>"

definition example_target :: SnowflakeConnection where
  "example_target = \<lparr>sf_account = ''account'', sf_warehouse = ''WH'', sf_database = ''DB'',
     sf_schema_name = ''PUBLIC'', sf_username = ''user'', sf_password = ''target-secret''\<rparr>"

definition example_cm :: ConnectionManager where
  "example_cm = \<lparr>source_connections = [''source-1'' \<mapsto> example_source],
     snowflake_connections = [''target-1'' \<mapsto> example_target]\<rparr>"

definition example_running :: MigrationEngine where
  "example_running = run_ops (init_engine 10 ''/usr/local/bin/migrate-tool'')
     [Create ''job-1'' example_config, Start example_cm ''job-1'' 100, Spawned ''job-1'' 4242]"

text \<open>The job in that engine: running, bound to process 4242, nothing reported yet.\<close>

definition example_job :: Migration where
  "example_job =
     \<lparr>migration_id = ''job-1'', source_connection_id = ''source-1'',
        target_connection_id = ''target-1'', staging_area_id = ''s3-prod'',
        tables = example_tables, target_schema = None, status = RUNNING,
        progress = new_progress 2, started_at = Some 100, completed_at = None,
        error = None, cli_process_id = Some 4242\<rparr>"

text \<open>The same engine after the child exited with code 0.\<close>

definition example_completed :: MigrationEngine where
  "example_completed = run_exit ''job-1'' 0 200 example_running"

text \<open>Further engines and inputs used as concrete instances below.\<close>

definition example_queued :: MigrationEngine where
  "example_queued = run_ops (init_engine 10 ''/usr/local/bin/migrate-tool'')
     [Create ''job-1'' example_config]"

definition example_environ :: "(string \<times> string) list" where
  "example_environ = [(''PATH'', ''/usr/bin''), (''SNOWMIGRATE_SOURCE_PASSWORD'', ''stale'')]"

definition example_one_paused :: MigrationEngine where
  "example_one_paused = run_ops (init_engine 1 ''/usr/local/bin/migrate-tool'')
     [Create ''job-1'' example_config, Start example_cm ''job-1'' 100, Spawned ''job-1'' 4242,
      Pause ''job-1'', Create ''job-2'' example_config]"

definition example_full :: MigrationEngine where
  "example_full = run_ops (init_engine 1 ''/usr/local/bin/migrate-tool'')
     [Create ''job-1'' example_config, Start example_cm ''job-1'' 100, Spawned ''job-1'' 4242,
      Create ''job-2'' example_config]"

text \<open>Protocol messages: \<open>{"type":"table_complete"}\<close>, \<open>{"type":"complete"}\<close> and a
  \<open>progress\<close> message with table, \<open>rows_migrated\<close>, \<open>total_rows\<close> and percentage 0.\<close>

definition table_complete_msg :: wire_dict where
  "table_complete_msg = Dict (Some ''table_complete'') None None None None None"

definition progress_msg :: "string \<Rightarrow> int \<Rightarrow> int \<Rightarrow> wire_dict" where
  "progress_msg t rows tot = Dict (Some ''progress'') (Some t) (Some rows) (Some tot) (Some 0) None"

definition complete_msg :: wire_dict where
  "complete_msg = Dict (Some ''complete'') None None None None None"

definition example_events :: "(wire_dict \<times> real) list" where
  "example_events =
     [(progress_msg ''users'' 500 1000, 110), (table_complete_msg, 120), (complete_msg, 130)]"

definition example_overrun :: "(wire_dict \<times> real) list" where
  "example_overrun =
     [(table_complete_msg, 110), (table_complete_msg, 120), (table_complete_msg, 130),
      (progress_msg ''users'' 10 5, 140)]"

section \<open>Notions of the specification\<close>

text \<open>
  The job an operation or a step of a task is addressed to, and the terminal statuses.
\<close>

fun op_job :: "operation \<Rightarrow> string" where
  "op_job (Create new_id config) = new_id"
| "op_job (Start cm mid now) = mid"
| "op_job (Pause mid) = mid"
| "op_job (Cancel mid timed_out now) = mid"
| "op_job (Spawned mid pid) = mid"
| "op_job (Spawn_file_not_found mid now) = mid"
| "op_job (Task_exception mid msg now) = mid"
| "op_job (Stdout_line mid lin now) = mid"
| "op_job (Stderr_line mid lin now) = mid"
| "op_job (Exited mid returncode now) = mid"

definition is_terminal :: "MigrationStatus \<Rightarrow> bool" where
  "is_terminal s = (s = COMPLETED \<or> s = FAILED \<or> s = CANCELLED)"

text \<open>
  Counts over the registry: the jobs that are Running or Queued (the count in the words
  of section 4.2), the jobs that are Running, and the jobs other than \<open>mid\<close> that
  \<open>list_active_migrations\<close> returns.
\<close>

definition count_running_queued :: "MigrationEngine \<Rightarrow> int" where
  "count_running_queued eng =
     int (length (filter (\<lambda>m. status m = RUNNING \<or> status m = QUEUED) (list_migrations eng)))"

definition count_running :: "MigrationEngine \<Rightarrow> int" where
  "count_running eng = int (length (filter (\<lambda>m. status m = RUNNING) (list_migrations eng)))"

definition other_active :: "MigrationEngine \<Rightarrow> string \<Rightarrow> int" where
  "other_active eng mid =
     int (length (filter (\<lambda>e. fst e \<noteq> mid \<and> is_active (snd e)) (migrations eng)))"

text \<open>
  The invariant of a progress snapshot in the words of section 3, and what it takes of a
  message to keep it: a \<open>table_complete\<close> arrives only while a table is outstanding,
  and the row counters a \<open>progress\<close> message leaves behind are within the total once
  the total is positive.
\<close>

definition snapshot_inv :: "MigrationProgress \<Rightarrow> bool" where
  "snapshot_inv p =
     (completed_tables p \<le> total_tables p \<and> (total_rows p > 0 \<longrightarrow> migrated_rows p \<le> total_rows p))"

definition respects_bounds :: "wire_dict \<Rightarrow> MigrationProgress \<Rightarrow> bool" where
  "respects_bounds data p =
     (let msg_type = get_default (d_type data) '''' in
      if msg_type = ''progress'' then
        (let rows = get_default (d_rows_migrated data) (migrated_rows p);
             tot = get_default (d_total_rows data) (total_rows p)
         in tot > 0 \<longrightarrow> rows \<le> tot)
      else if msg_type = ''table_complete'' then completed_tables p < total_tables p
      else True)"

text \<open>
  The loop of \<open>read_progress\<close> over lines that are protocol objects, seen from the
  job: the snapshots it stores and queues, in order, each computed from the job as the
  previous line left it; and the streams all of whose messages respect the bounds in the
  state they arrive in. \<open>stdout_dict_lines\<close> is the same stream as steps of the task.
\<close>

fun observed_snapshots :: "Migration \<Rightarrow> (wire_dict \<times> real) list \<Rightarrow> MigrationProgress list" where
  "observed_snapshots m [] = []"
| "observed_snapshots m ((data, now) # rest) =
     (let p = parse_progress data m now in p # observed_snapshots (m\<lparr>progress := p\<rparr>) rest)"

fun well_behaved :: "Migration \<Rightarrow> (wire_dict \<times> real) list \<Rightarrow> bool" where
  "well_behaved m [] = True"
| "well_behaved m ((data, now) # rest) =
     (respects_bounds data (progress m) \<and>
      well_behaved (m\<lparr>progress := parse_progress data m now\<rparr>) rest)"

definition stdout_dict_lines :: "string \<Rightarrow> (wire_dict \<times> real) list \<Rightarrow> operation list" where
  "stdout_dict_lines mid events = map (\<lambda>(data, now). Stdout_line mid (Loads_Dict data) now) events"

section \<open>Basic facts\<close>

lemma get_migration_mutate:
  "get_migration (mutate f mid eng) k =
     (if k = mid then map_option f (get_migration eng mid) else get_migration eng k)"
  by (auto simp: get_migration_def mutate_def map_of_map_entry split: option.splits)

lemma processes_mutate [simp]: "processes (mutate f mid eng) = processes eng"
  by (simp add: mutate_def)

lemma get_migration_run_finally:
  "get_migration (run_finally mid now eng) k =
     (if k = mid then map_option (\<lambda>x. x\<lparr>completed_at := Some now\<rparr>) (get_migration eng mid)
      else get_migration eng k)"
  by (simp add: run_finally_def get_migration_def mutate_def map_of_map_entry split: option.splits)

lemma example_running_eq:
  "example_running =
     \<lparr>migrations = [(''job-1'', example_job)],
      processes = [], progress_queues = [(''job-1'', [])],
      max_concurrent_migrations = 10, cli_path = ''/usr/local/bin/migrate-tool''\<rparr>"
  by (simp add: example_running_def run_ops_def init_engine_def create_migration_def
      start_migration_def get_migration_def mutate_def list_active_migrations_def is_active_def
      get_source_connection_def get_snowflake_connection_def example_cm_def example_config_def
      example_job_def example_tables_def run_spawned_def Let_def)

lemma example_running_get:
  "get_migration example_running k = (if k = ''job-1'' then Some example_job else None)"
  by (simp add: example_running_eq get_migration_def)

lemma example_job_fields:
  "status example_job = RUNNING" "error example_job = None"
  "cli_process_id example_job = Some 4242" "started_at example_job = Some 100"
  "completed_at example_job = None" "progress example_job = new_progress 2"
  by (simp_all add: example_job_def)

lemma get_migration_progress_queues [simp]:
  "get_migration (eng\<lparr>progress_queues := q\<rparr>) k = get_migration eng k"
  by (simp add: get_migration_def)

lemma run_ops_Cons: "run_ops eng (op # ops) = run_ops (step eng op) ops"
  by (simp add: run_ops_def)

lemma run_ops_Nil: "run_ops eng [] = eng"
  by (simp add: run_ops_def)

lemmas engine_eval =
  run_ops_def init_engine_def create_migration_def start_migration_def pause_migration_def
  cancel_migration_def get_migration_def mutate_def list_active_migrations_def is_active_def
  get_source_connection_def get_snowflake_connection_def run_spawned_def run_exit_def
  run_finally_def on_exit_def run_stdout_line_def read_progress_def Let_def

lemmas fixture_defs = example_cm_def example_config_def example_tables_def example_job_def

lemma example_queued_eq:
  "example_queued =
     \<lparr>migrations = [(''job-1'', example_job\<lparr>status := QUEUED, started_at := None,
                                   cli_process_id := None\<rparr>)],
      processes = [], progress_queues = [(''job-1'', [])],
      max_concurrent_migrations = 10, cli_path = ''/usr/local/bin/migrate-tool''\<rparr>"
  by (simp add: example_queued_def engine_eval fixture_defs)

lemma example_full_eq:
  "example_full =
     \<lparr>migrations = [(''job-1'', example_job),
                     (''job-2'', example_job\<lparr>migration_id := ''job-2'', status := QUEUED,
                                   started_at := None, cli_process_id := None\<rparr>)],
      processes = [], progress_queues = [(''job-1'', []), (''job-2'', [])],
      max_concurrent_migrations = 1, cli_path = ''/usr/local/bin/migrate-tool''\<rparr>"
  by (simp add: example_full_def engine_eval fixture_defs)

lemma example_one_paused_eq:
  "example_one_paused =
     \<lparr>migrations = [(''job-1'', example_job\<lparr>status := PAUSED\<rparr>),
                     (''job-2'', example_job\<lparr>migration_id := ''job-2'', status := QUEUED,
                                   started_at := None, cli_process_id := None\<rparr>)],
      processes = [], progress_queues = [(''job-1'', []), (''job-2'', [])],
      max_concurrent_migrations = 1, cli_path = ''/usr/local/bin/migrate-tool''\<rparr>"
  by (simp add: example_one_paused_def engine_eval fixture_defs)

section \<open>Process exit\<close>



section \<open>The process registry\<close>

text \<open>
  No operation and no step of a task adds an entry to \<open>_processes\<close>: the dictionary
  is created empty, read by \<open>pause_migration\<close> and \<open>cancel_migration\<close>, and
  \<open>_run_migration\<close> only removes from it. So it is empty in every state an engine
  can reach.
\<close>

lemma processes_step: "processes eng = [] \<Longrightarrow> processes (step eng op) = []"
  by (cases op)
     (auto simp: create_migration_def start_migration_def pause_migration_def
        cancel_migration_def run_spawned_def run_file_not_found_def run_exception_def
        run_stdout_line_def run_stderr_line_def read_progress_def read_errors_def
        run_exit_def run_finally_def Let_def
        split: option.splits line.splits sum.splits)

lemma processes_run_ops: "processes eng = [] \<Longrightarrow> processes (run_ops eng ops) = []"
  unfolding run_ops_def by (induction ops arbitrary: eng) (simp_all add: processes_step)

lemma processes_reachable: "processes (run_ops (init_engine limit path) ops) = []"
  by (rule processes_run_ops) (simp add: init_engine_def)

section \<open>Pause\<close>

text \<open>
  C6. In every state an engine reaches from its construction, \<open>pause_migration\<close>
  makes no call on any process handle: when it succeeds, the list of signals it sent is
  empty. (The specification says that pausing a running job sends an interrupt to the job's
  process; the job below is running, its child has process id 4242, and pausing it sets
  the status to \<open>PAUSED\<close> and sends nothing.)
\<close>

theorem pause_never_signals:
  assumes "snd (pause_migration (run_ops (init_engine limit path) ops) mid) = Inr acts"
  shows "acts = []"
  using assms by (auto simp: pause_migration_def processes_reachable split: option.splits if_splits)

theorem pause_never_signals_witness:
  "map_option status (get_migration example_running ''job-1'') = Some RUNNING \<and>
   map_option cli_process_id (get_migration example_running ''job-1'') = Some (Some 4242) \<and>
   snd (pause_migration example_running ''job-1'') = Inr [] \<and>
   map_option status (get_migration (fst (pause_migration example_running ''job-1'')) ''job-1'')
     = Some PAUSED"
proof -
  let ?acts = "case map_of (processes example_running) ''job-1'' of
                 None \<Rightarrow> [] | Some process \<Rightarrow> [Send_SIGINT process]"
  have g: "get_migration example_running ''job-1'' \<noteq> None"
          "map_option status (get_migration example_running ''job-1'') = Some RUNNING"
          "map_option cli_process_id (get_migration example_running ''job-1'') = Some (Some 4242)"
    by (simp_all add: example_running_get example_job_fields)
  then have h: "snd (pause_migration example_running ''job-1'') = Inr ?acts"
    by (auto simp: pause_migration_def)
  have "?acts = []"
    using h pause_never_signals [of 10 "''/usr/local/bin/migrate-tool''" _ "''job-1''" ?acts]
    unfolding example_running_def by blast
  with h g show ?thesis
    by (auto simp: pause_migration_def get_migration_mutate)
qed

section \<open>Cancel\<close>

text \<open>
  C5. For a job of an engine reached from its construction, \<open>cancel_migration\<close>
  makes no call on any process handle (no terminate, no wait, no kill) and sets the
  status to \<open>CANCELLED\<close>; when the child, which was not signalled, later exits, the
  exit handling of \<open>_run_migration\<close> replaces \<open>CANCELLED\<close> by \<open>COMPLETED\<close> (exit
  code zero) or \<open>FAILED\<close>. (The specification says that the process is terminated and that
  the job is left at \<open>CANCELLED\<close> whatever the child does.)
\<close>

theorem cancel_no_signal_and_exit_overwrites:
  assumes "eng = run_ops (init_engine limit path) ops"
    and "get_migration eng mid = Some m"
  shows "snd (cancel_migration eng mid timed_out now) = Inr [] \<and>
         map_option status (get_migration (fst (cancel_migration eng mid timed_out now)) mid)
           = Some CANCELLED \<and>
         map_option status
           (get_migration (run_exit mid returncode later
              (fst (cancel_migration eng mid timed_out now))) mid)
           = Some (if returncode = 0 then COMPLETED else FAILED)"
  using assms
  by (auto simp: cancel_migration_def processes_reachable get_migration_mutate run_exit_def
      get_migration_run_finally on_exit_def Let_def)

theorem cancel_no_signal_and_exit_overwrites_witness:
  "map_option status (get_migration example_running ''job-1'') = Some RUNNING \<and>
   snd (cancel_migration example_running ''job-1'' False 150) = Inr [] \<and>
   map_option status
     (get_migration (run_exit ''job-1'' 0 200
        (fst (cancel_migration example_running ''job-1'' False 150))) ''job-1'')
     = Some COMPLETED"
proof -
  obtain m where g: "get_migration example_running ''job-1'' = Some m" "status m = RUNNING"
    by (simp add: example_running_get example_job_fields)
  from cancel_no_signal_and_exit_overwrites [OF example_running_def g(1), of False 150 0 200] g
  show ?thesis by simp
qed

text \<open>
  C10. \<open>cancel_migration\<close> fails only for an unknown id, with the not-found
  \<open>KeyError\<close> and the state unchanged; for a known id, whatever the job's status, it
  succeeds and the job's record becomes the old record with status \<open>CANCELLED\<close> and
  the completion timestamp set to the current clock.
\<close>

theorem cancel_accepts_any_status:
  "(get_migration eng mid = None \<longrightarrow>
      cancel_migration eng mid timed_out now = (eng, Inl (KeyError_not_found mid))) \<and>
   (\<forall>m. get_migration eng mid = Some m \<longrightarrow>
      (\<exists>acts. snd (cancel_migration eng mid timed_out now) = Inr acts) \<and>
      get_migration (fst (cancel_migration eng mid timed_out now)) mid
        = Some (m\<lparr>status := CANCELLED, completed_at := Some now\<rparr>))"
  by (auto simp: cancel_migration_def get_migration_mutate)


theorem cancel_accepts_any_status_witness:
  "map_option status (get_migration example_completed ''job-1'') = Some COMPLETED \<and>
   map_option completed_at (get_migration example_completed ''job-1'') = Some (Some 200) \<and>
   snd (cancel_migration example_completed ''job-1'' False 300) = Inr [] \<and>
   map_option status
     (get_migration (fst (cancel_migration example_completed ''job-1'' False 300)) ''job-1'')
     = Some CANCELLED \<and>
   map_option completed_at
     (get_migration (fst (cancel_migration example_completed ''job-1'' False 300)) ''job-1'')
     = Some (Some 300) \<and>
   get_migration example_completed ''job-2'' = None \<and>
   cancel_migration example_completed ''job-2'' False 300
     = (example_completed, Inl (KeyError_not_found ''job-2''))"
proof -
  have e: "example_completed = run_ops (init_engine 10 ''/usr/local/bin/migrate-tool'')
     [Create ''job-1'' example_config, Start example_cm ''job-1'' 100, Spawned ''job-1'' 4242,
      Exited ''job-1'' 0 200]"
    by (simp add: example_completed_def example_running_def run_ops_def)
  have p: "processes example_completed = []"
    unfolding e by (rule processes_reachable)
  obtain m where g: "get_migration example_completed ''job-1'' = Some m"
      "status m = COMPLETED" "completed_at m = Some 200"
    by (simp add: example_completed_def run_exit_def get_migration_run_finally
        get_migration_mutate example_running_get example_job_fields on_exit_def)
  have n: "get_migration example_completed ''job-2'' = None"
    by (simp add: example_completed_def run_exit_def get_migration_run_finally
        get_migration_mutate example_running_get)
  from cancel_accepts_any_status [of example_completed "''job-1''" False 300]
       cancel_accepts_any_status [of example_completed "''job-2''" False 300] g n p
  show ?thesis by (auto simp: cancel_migration_def)
qed

section \<open>Lines that are not protocol events\<close>

text \<open>
  C3. A line that is valid JSON but not a JSON object (for instance \<open>42\<close>) makes
  \<open>data.get\<close> raise \<open>AttributeError\<close>, which the reader does not catch; it ends
  the task in \<open>except Exception\<close>, and the job's status becomes \<open>FAILED\<close> with the
  text of the exception as its error, on stdout and on stderr alike. A line on which
  \<open>json.loads\<close> raises \<open>JSONDecodeError\<close> leaves the whole engine state unchanged.
  (The specification says that no line that fails to decode to a protocol event changes the
  status.)
\<close>

theorem non_dict_line_fails_job:
  assumes "get_migration eng mid = Some m"
  shows "map_option status
           (get_migration (run_stdout_line mid (Loads_NonDict ty) now eng) mid) = Some FAILED \<and>
         map_option error
           (get_migration (run_stdout_line mid (Loads_NonDict ty) now eng) mid)
           = Some (Some (attribute_error_get ty)) \<and>
         map_option status
           (get_migration (run_stderr_line mid (Loads_NonDict ty) now eng) mid) = Some FAILED \<and>
         run_stdout_line mid Raises_JSONDecodeError now eng = eng \<and>
         run_stderr_line mid Raises_JSONDecodeError now eng = eng"
  using assms
  by (simp add: run_stdout_line_def run_stderr_line_def read_progress_def read_errors_def
      run_exception_def get_migration_run_finally get_migration_mutate)

theorem non_dict_line_fails_job_witness:
  "map_option status (get_migration example_running ''job-1'') = Some RUNNING \<and>
   map_option status
     (get_migration (run_stdout_line ''job-1'' (Loads_NonDict ''int'') 150 example_running)
        ''job-1'') = Some FAILED \<and>
   map_option error
     (get_migration (run_stdout_line ''job-1'' (Loads_NonDict ''int'') 150 example_running)
        ''job-1'')
     = Some (Some ([CHR 0x27] @ ''int'' @ [CHR 0x27] @ '' object has no attribute '' @
               [CHR 0x27] @ ''get'' @ [CHR 0x27]))"
proof -
  obtain m where g: "get_migration example_running ''job-1'' = Some m" "status m = RUNNING"
    by (simp add: example_running_get example_job_fields)
  from non_dict_line_fails_job [OF g(1), of "''int''" 150] g
  show ?thesis by (simp add: attribute_error_get_def)
qed

section \<open>The percentage\<close>

text \<open>
  C9. For every progress snapshot whose \<open>total_rows\<close> and \<open>total_tables\<close> are not
  negative, the percentage the code computes is the one the specification describes:
  \<open>migrated_rows / total_rows * 100\<close> when \<open>total_rows > 0\<close>, otherwise
  \<open>completed_tables / total_tables * 100\<close> when \<open>total_tables > 0\<close>, otherwise 0; and
  with \<open>total_rows = 0\<close>, \<open>total_tables = 4\<close>, \<open>completed_tables = 2\<close> it is 50,
  whatever the row counter holds.
\<close>

theorem percentage_refines_spec:
  assumes "0 \<le> total_rows p" and "0 \<le> total_tables p"
  shows "percentage p = percentage_spec p \<and>
         (total_rows p = 0 \<and> total_tables p = 4 \<and> completed_tables p = 2 \<longrightarrow> percentage p = 50)"
  using assms by (auto simp: percentage_def percentage_spec_def)

theorem percentage_refines_spec_witness:
  "0 \<le> total_rows ((new_progress 4)\<lparr>completed_tables := 2, migrated_rows := 7\<rparr>) \<and>
   0 \<le> total_tables ((new_progress 4)\<lparr>completed_tables := 2, migrated_rows := 7\<rparr>) \<and>
   percentage ((new_progress 4)\<lparr>completed_tables := 2, migrated_rows := 7\<rparr>) = 50 \<and>
   percentage_spec ((new_progress 4)\<lparr>completed_tables := 2, migrated_rows := 7\<rparr>) = 50"
proof -
  let ?p = "(new_progress 4)\<lparr>completed_tables := 2, migrated_rows := 7\<rparr>"
  have h: "0 \<le> total_rows ?p" "0 \<le> total_tables ?p"
    by (simp_all add: new_progress_def)
  have v: "total_rows ?p = 0 \<and> total_tables ?p = 4 \<and> completed_tables ?p = 2"
    by (simp add: new_progress_def)
  from percentage_refines_spec [OF h] v h show ?thesis by simp
qed

text \<open>
  The code tests \<open>total_rows == 0\<close>, not \<open>total_rows > 0\<close>: after the stdout line
  \<open>{"type":"progress","table":"users","rows_migrated":1,"total_rows":-5}\<close> on a
  snapshot with 2 of 4 tables completed it divides by the negative total and returns
  -20, where the specification's formula falls back to the tables and gives 50.
\<close>

theorem percentage_negative_total_counterexample:
  "percentage (apply_message (Dict (Some ''progress'') (Some ''users'') (Some 1) (Some (- 5)) None None)
       ((new_progress 4)\<lparr>completed_tables := 2\<rparr>)) = - 20 \<and>
   percentage_spec (apply_message (Dict (Some ''progress'') (Some ''users'') (Some 1) (Some (- 5)) None None)
       ((new_progress 4)\<lparr>completed_tables := 2\<rparr>)) = 50"
  by (simp add: percentage_def percentage_spec_def apply_message_def get_default_def
      new_progress_def)

section \<open>Arguments and credentials\<close>

lemma map_of_run_process_env:
  "map_of (run_process_env os_environ [(k1, v1), (k2, v2)]) k =
     (if k = k2 then Some v2 else if k = k1 then Some v1 else map_of os_environ k)"
  by (simp add: run_process_env_def dict_update_def update_conv')

text \<open>
  C8. When \<open>start_migration\<close> succeeds, the argument list it hands to the task
  contains no secret: it is built from the job and the two connections without reading
  a password, so replacing either password by any other string gives the same argument
  list. The passwords are passed only in the environment it hands over, which has
  exactly two entries, the source password and the target password; the environment of
  the child is the inherited one with these two entries written over it.
\<close>

theorem args_independent_of_passwords:
  assumes "snd (start_migration eng cm mid now) = Inr (tid, args, env)"
  shows "\<exists>m source_conn target_conn.
           get_migration eng mid = Some m \<and>
           get_source_connection cm (source_connection_id m) = Some source_conn \<and>
           get_snowflake_connection cm (target_connection_id m) = Some target_conn \<and>
           (\<forall>p q. build_args (source_conn\<lparr>src_password := p\<rparr>) (target_conn\<lparr>sf_password := q\<rparr>)
                    (m\<lparr>status := RUNNING, started_at := Some now\<rparr>) = args) \<and>
           env = [(''SNOWMIGRATE_SOURCE_PASSWORD'', src_password source_conn),
                  (''SNOWMIGRATE_TARGET_PASSWORD'', sf_password target_conn)] \<and>
           (\<forall>k. map_of (run_process_env os_environ env) k =
                  (if k = ''SNOWMIGRATE_TARGET_PASSWORD'' then Some (sf_password target_conn)
                   else if k = ''SNOWMIGRATE_SOURCE_PASSWORD'' then Some (src_password source_conn)
                   else map_of os_environ k))"
  using assms
  by (auto simp: start_migration_def Let_def build_env_def build_args_def map_of_run_process_env
      split: option.splits if_splits)

theorem args_independent_of_passwords_witness:
  "snd (start_migration example_queued example_cm ''job-1'' 100) =
     Inr (''job-1'',
       [''migrate'', ''--source-type'', ''postgres'', ''--source-host'', ''localhost'',
        ''--source-port'', ''5432'', ''--source-database'', ''db'', ''--source-user'', ''user'',
        ''--tables'', ''public.users,public.orders'', ''--target-account'', ''account'',
        ''--target-warehouse'', ''WH'', ''--target-database'', ''DB'', ''--target-schema'',
        ''PUBLIC'', ''--target-user'', ''user'', ''--staging-id'', ''s3-prod'',
        ''--progress-format'', ''json''],
       [(''SNOWMIGRATE_SOURCE_PASSWORD'', ''source-secret''),
        (''SNOWMIGRATE_TARGET_PASSWORD'', ''target-secret'')]) \<and>
   build_args (example_source\<lparr>src_password := ''another''\<rparr>)
       (example_target\<lparr>sf_password := ''yet another''\<rparr>)
       (example_job\<lparr>status := RUNNING, started_at := Some 100, cli_process_id := None\<rparr>)
     = fst (snd (projr (snd (start_migration example_queued example_cm ''job-1'' 100)))) \<and>
   src_password example_source
     \<notin> set (fst (snd (projr (snd (start_migration example_queued example_cm ''job-1'' 100))))) \<and>
   sf_password example_target
     \<notin> set (fst (snd (projr (snd (start_migration example_queued example_cm ''job-1'' 100))))) \<and>
   run_process_env example_environ
       (snd (snd (projr (snd (start_migration example_queued example_cm ''job-1'' 100)))))
     = [(''PATH'', ''/usr/bin''), (''SNOWMIGRATE_SOURCE_PASSWORD'', ''source-secret''),
        (''SNOWMIGRATE_TARGET_PASSWORD'', ''target-secret'')]"
proof -
  let ?args = "[''migrate'', ''--source-type'', ''postgres'', ''--source-host'', ''localhost'',
        ''--source-port'', ''5432'', ''--source-database'', ''db'', ''--source-user'', ''user'',
        ''--tables'', ''public.users,public.orders'', ''--target-account'', ''account'',
        ''--target-warehouse'', ''WH'', ''--target-database'', ''DB'', ''--target-schema'',
        ''PUBLIC'', ''--target-user'', ''user'', ''--staging-id'', ''s3-prod'',
        ''--progress-format'', ''json'']"
  let ?env = "[(''SNOWMIGRATE_SOURCE_PASSWORD'', ''source-secret''),
        (''SNOWMIGRATE_TARGET_PASSWORD'', ''target-secret'')]"
  have h: "snd (start_migration example_queued example_cm ''job-1'' 100)
             = Inr (''job-1'', ?args, ?env)"
    by (simp add: example_queued_eq engine_eval fixture_defs build_args_def build_env_def
        example_source_def example_target_def full_name_def str_int_def str_nat.simps)
  have g: "get_migration example_queued ''job-1''
             = Some (example_job\<lparr>status := QUEUED, started_at := None, cli_process_id := None\<rparr>)"
    by (simp add: example_queued_eq get_migration_def)
  have c: "get_source_connection example_cm ''source-1'' = Some example_source"
      "get_snowflake_connection example_cm ''target-1'' = Some example_target"
    by (simp_all add: get_source_connection_def get_snowflake_connection_def example_cm_def)
  have i: "source_connection_id example_job = ''source-1''"
      "target_connection_id example_job = ''target-1''"
    by (simp_all add: example_job_def)
  from args_independent_of_passwords [OF h, of example_environ] g c i
  have indep: "build_args (example_source\<lparr>src_password := ''another''\<rparr>)
       (example_target\<lparr>sf_password := ''yet another''\<rparr>)
       (example_job\<lparr>status := RUNNING, started_at := Some 100, cli_process_id := None\<rparr>) = ?args"
    by (auto simp: example_job_def)
  have e: "run_process_env example_environ ?env
     = [(''PATH'', ''/usr/bin''), (''SNOWMIGRATE_SOURCE_PASSWORD'', ''source-secret''),
        (''SNOWMIGRATE_TARGET_PASSWORD'', ''target-secret'')]"
    by (simp add: run_process_env_def dict_update_def example_environ_def)
  have n: "src_password example_source \<notin> set ?args" "sf_password example_target \<notin> set ?args"
    by (simp_all add: example_source_def example_target_def)
  from h indep e n show ?thesis by simp
qed

section \<open>Admission\<close>

lemma distinct_step:
  "distinct (map fst (migrations eng)) \<Longrightarrow> distinct (map fst (migrations (step eng op)))"
  by (cases op)
     (auto simp: create_migration_def start_migration_def pause_migration_def
        cancel_migration_def run_spawned_def run_file_not_found_def run_exception_def
        run_stdout_line_def run_stderr_line_def read_progress_def read_errors_def
        run_exit_def run_finally_def mutate_def Let_def distinct_update distinct_map_entry
        split: option.splits line.splits sum.splits)

lemma distinct_reachable:
  "distinct (map fst (migrations (run_ops (init_engine limit path) ops)))"
proof -
  have "distinct (map fst (migrations eng)) \<Longrightarrow> distinct (map fst (migrations (run_ops eng ops)))"
    for eng
    unfolding run_ops_def by (induction ops arbitrary: eng) (simp_all add: distinct_step)
  then show ?thesis by (simp add: init_engine_def)
qed

lemma active_after_mark:
  assumes "map_of al k = Some m" and "distinct (map fst al)" and "is_active (f m)"
  shows "length (filter is_active (map snd (AList.map_entry k f al))) =
         length (filter (\<lambda>e. fst e \<noteq> k \<and> is_active (snd e)) al) + 1"
  using assms
proof (induction al)
  case Nil
  then show ?case by simp
next
  case (Cons e al)
  obtain a b where e: "e = (a, b)" by (cases e)
  show ?case
  proof (cases "a = k")
    case True
    with Cons.prems e have "b = m" and "k \<notin> fst ` set al" by auto
    then have "filter (\<lambda>e. fst e \<noteq> k \<and> is_active (snd e)) al = filter (\<lambda>e. is_active (snd e)) al"
      by (intro filter_cong) auto
    with True e \<open>b = m\<close> Cons.prems(3) show ?thesis
      by (simp add: filter_map comp_def)
  next
    case False
    with Cons e show ?thesis by simp
  qed
qed

lemma running_before_mark:
  assumes "map_of al k = Some m" and "status m \<noteq> RUNNING" and "\<And>x. is_active (f x)"
    and "\<And>x. status x = RUNNING \<Longrightarrow> is_active x"
  shows "length (filter (\<lambda>m. status m = RUNNING) (map snd al)) + 1
         \<le> length (filter is_active (map snd (AList.map_entry k f al)))"
  using assms(1,2)
proof (induction al)
  case Nil
  then show ?case by simp
next
  case (Cons e al)
  obtain a b where e: "e = (a, b)" by (cases e)
  have mono: "length (filter (\<lambda>m. status m = RUNNING) ys) \<le> length (filter is_active ys)"
    for ys :: "Migration list"
    by (induction ys) (auto simp: assms(4))
  show ?case
  proof (cases "a = k")
    case True
    with Cons.prems e have "b = m" by simp
    with True e Cons.prems(2) assms(3) mono [of "map snd al"] show ?thesis by simp
  next
    case False
    with Cons e show ?thesis by (auto simp: assms(4))
  qed
qed

text \<open>
  C2. Starting a job that is Queued or Paused and whose connections resolve:
  if at least as many jobs are Running as the ceiling allows, the start fails with the
  maximum-concurrent \<open>ValueError\<close> and the job's status is Queued afterwards; a start
  either is admitted or fails in exactly that way; and, the ids being distinct, it is
  admitted iff the jobs that are Running, Queued or Paused, the job being started
  included, are no more than the ceiling.
\<close>

theorem start_admission:
  assumes "get_migration eng mid = Some m"
    and "status m = QUEUED \<or> status m = PAUSED"
    and "get_source_connection cm (source_connection_id m) = Some source_conn"
    and "get_snowflake_connection cm (target_connection_id m) = Some target_conn"
  shows "(max_concurrent_migrations eng \<le> count_running eng \<longrightarrow>
            snd (start_migration eng cm mid now)
              = Inl (ValueError_maximum_concurrent (max_concurrent_migrations eng)) \<and>
            map_option status (get_migration (fst (start_migration eng cm mid now)) mid)
              = Some QUEUED) \<and>
         ((\<exists>task. snd (start_migration eng cm mid now) = Inr task) \<or>
            snd (start_migration eng cm mid now)
              = Inl (ValueError_maximum_concurrent (max_concurrent_migrations eng)) \<and>
            map_option status (get_migration (fst (start_migration eng cm mid now)) mid)
              = Some QUEUED) \<and>
         (distinct (map fst (migrations eng)) \<longrightarrow>
            ((\<exists>task. snd (start_migration eng cm mid now) = Inr task) \<longleftrightarrow>
               other_active eng mid + 1 \<le> max_concurrent_migrations eng))"
proof -
  let ?f = "\<lambda>x. x\<lparr>status := RUNNING, started_at := Some now\<rparr>"
  let ?eng1 = "mutate ?f mid eng"
  let ?n = "int (length (list_active_migrations ?eng1))"
  have m: "map_of (migrations eng) mid = Some m"
    using assms(1) by (simp add: get_migration_def)
  have nr: "status m \<noteq> RUNNING" using assms(2) by auto
  have res: "start_migration eng cm mid now =
     (if ?n > max_concurrent_migrations eng
      then (mutate (\<lambda>x. x\<lparr>status := QUEUED\<rparr>) mid ?eng1,
            Inl (ValueError_maximum_concurrent (max_concurrent_migrations eng)))
      else (?eng1, Inr (mid, build_args source_conn target_conn (?f m),
                        build_env source_conn target_conn)))"
    using assms by (auto simp: start_migration_def Let_def mutate_def)
  have q: "map_option status (get_migration (mutate (\<lambda>x. x\<lparr>status := QUEUED\<rparr>) mid ?eng1) mid)
             = Some QUEUED"
    using assms(1) by (simp add: get_migration_mutate)
  have lower: "count_running eng + 1 \<le> ?n"
    using running_before_mark [OF m nr, of ?f]
    by (simp add: count_running_def list_migrations_def list_active_migrations_def mutate_def
        is_active_def)
  have exact: "?n = other_active eng mid + 1" if "distinct (map fst (migrations eng))"
    using active_after_mark [OF m that, of ?f]
    by (simp add: other_active_def list_active_migrations_def mutate_def is_active_def)
  show ?thesis
    using res q lower exact by auto
qed

theorem start_admission_witness:
  "max_concurrent_migrations example_full \<le> count_running example_full \<and>
   snd (start_migration example_full example_cm ''job-2'' 300)
     = Inl (ValueError_maximum_concurrent 1) \<and>
   map_option status (get_migration (fst (start_migration example_full example_cm ''job-2'' 300))
     ''job-2'') = Some QUEUED \<and>
   other_active example_queued ''job-1'' + 1 \<le> max_concurrent_migrations example_queued \<and>
   \<not> isl (snd (start_migration example_queued example_cm ''job-1'' 100))"
proof -
  let ?j2 = "example_job\<lparr>migration_id := ''job-2'', status := QUEUED, started_at := None,
               cli_process_id := None\<rparr>"
  let ?j1 = "example_job\<lparr>status := QUEUED, started_at := None, cli_process_id := None\<rparr>"
  have g2: "get_migration example_full ''job-2'' = Some ?j2"
    by (simp add: example_full_eq get_migration_def)
  have s2: "status ?j2 = QUEUED \<or> status ?j2 = PAUSED" by simp
  have c2: "get_source_connection example_cm (source_connection_id ?j2) = Some example_source"
      "get_snowflake_connection example_cm (target_connection_id ?j2) = Some example_target"
    by (simp_all add: get_source_connection_def get_snowflake_connection_def fixture_defs)
  have r: "max_concurrent_migrations example_full \<le> count_running example_full"
    by (simp add: example_full_eq count_running_def list_migrations_def example_job_def)
  have g1: "get_migration example_queued ''job-1'' = Some ?j1"
    by (simp add: example_queued_eq get_migration_def)
  have s1: "status ?j1 = QUEUED \<or> status ?j1 = PAUSED" by simp
  have c1: "get_source_connection example_cm (source_connection_id ?j1) = Some example_source"
      "get_snowflake_connection example_cm (target_connection_id ?j1) = Some example_target"
    by (simp_all add: get_source_connection_def get_snowflake_connection_def fixture_defs)
  have d: "distinct (map fst (migrations example_queued))"
    unfolding example_queued_def by (rule distinct_reachable)
  have o: "other_active example_queued ''job-1'' + 1 \<le> max_concurrent_migrations example_queued"
    by (simp add: example_queued_eq other_active_def)
  have mx: "max_concurrent_migrations example_full = 1"
    by (simp add: example_full_eq)
  from start_admission [OF g2 s2 c2, of 300] r mx
  have full: "snd (start_migration example_full example_cm ''job-2'' 300)
                = Inl (ValueError_maximum_concurrent 1) \<and>
              map_option status
                (get_migration (fst (start_migration example_full example_cm ''job-2'' 300))
                   ''job-2'') = Some QUEUED"
    by simp
  from start_admission [OF g1 s1 c1, of 100] d o
  have "\<exists>task. snd (start_migration example_queued example_cm ''job-1'' 100) = Inr task"
    by blast
  then have "\<not> isl (snd (start_migration example_queued example_cm ''job-1'' 100))"
    by auto
  with full r o show ?thesis by simp
qed

text \<open>
  Paused jobs count against the ceiling, so the count of Running and Queued jobs does
  not decide admission: with ceiling 1, one job Paused and one Queued, one job is
  Running or Queued and none is Running, yet starting the Queued job is refused.
\<close>

theorem start_admission_paused_counterexample:
  "count_running_queued example_one_paused = 1 \<and>
   count_running example_one_paused = 0 \<and>
   max_concurrent_migrations example_one_paused = 1 \<and>
   snd (start_migration example_one_paused example_cm ''job-2'' 300)
     = Inl (ValueError_maximum_concurrent 1)"
  by (simp add: example_one_paused_eq count_running_queued_def count_running_def
      list_migrations_def engine_eval fixture_defs)

section \<open>The bounds of a snapshot\<close>

lemma update_rate_counters [simp]:
  "total_tables (update_rate st now p) = total_tables p"
  "completed_tables (update_rate st now p) = completed_tables p"
  "total_rows (update_rate st now p) = total_rows p"
  "migrated_rows (update_rate st now p) = migrated_rows p"
  "current_table (update_rate st now p) = current_table p"
  by (simp_all add: update_rate_def Let_def split: option.splits)

lemma snapshot_inv_update_rate [simp]: "snapshot_inv (update_rate st now p) = snapshot_inv p"
  by (simp add: snapshot_inv_def)

lemma snapshot_inv_apply_message:
  "snapshot_inv p \<Longrightarrow> respects_bounds data p \<Longrightarrow> snapshot_inv (apply_message data p)"
  by (auto simp: snapshot_inv_def respects_bounds_def apply_message_def Let_def split: if_splits)

lemma snapshot_inv_parse_progress:
  "snapshot_inv (progress m) \<Longrightarrow> respects_bounds data (progress m) \<Longrightarrow>
   snapshot_inv (parse_progress data m now)"
  by (simp add: parse_progress_def snapshot_inv_apply_message)

lemma read_progress_dict:
  assumes "get_migration eng mid = Some m"
  shows "\<exists>eng'. read_progress mid (Loads_Dict data) now eng = Inr eng' \<and>
           get_migration eng' mid = Some (m\<lparr>progress := parse_progress data m now\<rparr>) \<and>
           map_of (progress_queues eng') mid =
             map_option (\<lambda>q. q @ [parse_progress data m now]) (map_of (progress_queues eng) mid)"
  using assms
  by (auto simp: read_progress_def Let_def get_migration_mutate get_migration_def mutate_def
      map_of_map_entry split: option.splits)

lemma snapshot_inv_observed:
  assumes "snapshot_inv (progress m)" and "well_behaved m events"
  shows "\<forall>p \<in> set (observed_snapshots m events). snapshot_inv p"
  using assms
proof (induction events arbitrary: m)
  case Nil
  then show ?case by simp
next
  case (Cons e events)
  obtain data now where e: "e = (data, now)" by (cases e)
  let ?p = "parse_progress data m now"
  from Cons.prems e have p: "snapshot_inv ?p"
    by (simp add: snapshot_inv_parse_progress)
  from Cons.prems e have "well_behaved (m\<lparr>progress := ?p\<rparr>) events" by simp
  with Cons.IH [of "m\<lparr>progress := ?p\<rparr>"] p
  have "\<forall>q \<in> set (observed_snapshots (m\<lparr>progress := ?p\<rparr>) events). snapshot_inv q" by simp
  with p e show ?case by (simp add: Let_def)
qed

lemma run_stdout_dict_lines:
  assumes "get_migration eng mid = Some m" and "map_of (progress_queues eng) mid = Some q"
  shows "get_migration (run_ops eng (stdout_dict_lines mid events)) mid
           = Some (m\<lparr>progress := last (progress m # observed_snapshots m events)\<rparr>) \<and>
         map_of (progress_queues (run_ops eng (stdout_dict_lines mid events))) mid
           = Some (q @ observed_snapshots m events)"
  using assms
proof (induction events arbitrary: eng m q)
  case Nil
  then show ?case by (simp add: stdout_dict_lines_def run_ops_Nil)
next
  case (Cons e events)
  obtain data now where e: "e = (data, now)" by (cases e)
  let ?p = "parse_progress data m now"
  let ?eng = "step eng (Stdout_line mid (Loads_Dict data) now)"
  from read_progress_dict [OF Cons.prems(1), of data now] Cons.prems(2)
  have g: "get_migration ?eng mid = Some (m\<lparr>progress := ?p\<rparr>)"
    and q: "map_of (progress_queues ?eng) mid = Some (q @ [?p])"
    by (auto simp: run_stdout_line_def)
  from Cons.IH [OF g q] e show ?case
    by (simp add: stdout_dict_lines_def run_ops_Cons Let_def)
qed

text \<open>
  C4. If a job's stored snapshot and the snapshots on its queue satisfy
  \<open>completed_tables \<le> total_tables\<close> and, when \<open>total_rows > 0\<close>,
  \<open>migrated_rows \<le> total_rows\<close>, and the child then writes protocol messages that
  respect these bounds, then the snapshot stored after them and every snapshot queued
  (the old ones and one per message) satisfy them too.
\<close>

theorem snapshot_bounds_kept_by_bounded_events:
  assumes "get_migration eng mid = Some m"
    and "map_of (progress_queues eng) mid = Some q"
    and "snapshot_inv (progress m)"
    and "\<forall>p \<in> set q. snapshot_inv p"
    and "well_behaved m events"
  shows "\<exists>m' q'. get_migration (run_ops eng (stdout_dict_lines mid events)) mid = Some m' \<and>
           map_of (progress_queues (run_ops eng (stdout_dict_lines mid events))) mid = Some q' \<and>
           q' = q @ observed_snapshots m events \<and>
           snapshot_inv (progress m') \<and> (\<forall>p \<in> set q'. snapshot_inv p)"
proof -
  from snapshot_inv_observed [OF assms(3,5)]
  have obs: "\<forall>p \<in> set (observed_snapshots m events). snapshot_inv p" .
  have "snapshot_inv (last (progress m # observed_snapshots m events))"
  proof (cases "observed_snapshots m events = []")
    case True
    with assms(3) show ?thesis by simp
  next
    case False
    with obs show ?thesis by simp
  qed
  with run_stdout_dict_lines [OF assms(1,2), of events] obs assms(4)
  show ?thesis by auto
qed

lemma example_observed:
  "observed_snapshots example_job example_events =
     [(new_progress 2)\<lparr>current_table := Some ''users'', total_rows := 1000, migrated_rows := 500,
        rows_per_second := 50, eta_seconds := Some 10\<rparr>,
      (new_progress 2)\<lparr>completed_tables := 1, total_rows := 1000, migrated_rows := 500,
        rows_per_second := 25, eta_seconds := Some 20\<rparr>,
      (new_progress 2)\<lparr>completed_tables := 2, total_rows := 1000, migrated_rows := 1000,
        rows_per_second := 100 / 3, eta_seconds := Some 0\<rparr>]"
  by (simp add: example_events_def example_job_def progress_msg_def table_complete_msg_def
      complete_msg_def parse_progress_def apply_message_def update_rate_def get_default_def
      new_progress_def py_int_def Let_def)

lemma example_well_behaved: "well_behaved example_job example_events"
  by (simp add: example_events_def example_job_def progress_msg_def table_complete_msg_def
      complete_msg_def parse_progress_def apply_message_def update_rate_def get_default_def
      new_progress_def py_int_def respects_bounds_def Let_def)

theorem snapshot_bounds_kept_by_bounded_events_witness:
  "snapshot_inv (new_progress 2) \<and> well_behaved example_job example_events \<and>
   map_option (completed_tables \<circ> progress)
     (get_migration (run_ops example_running (stdout_dict_lines ''job-1'' example_events)) ''job-1'')
     = Some 2 \<and>
   map_option (migrated_rows \<circ> progress)
     (get_migration (run_ops example_running (stdout_dict_lines ''job-1'' example_events)) ''job-1'')
     = Some 1000 \<and>
   map_option length
     (map_of (progress_queues (run_ops example_running (stdout_dict_lines ''job-1'' example_events)))
        ''job-1'') = Some 3"
proof -
  have g: "get_migration example_running ''job-1'' = Some example_job"
    by (simp add: example_running_get)
  have q: "map_of (progress_queues example_running) ''job-1'' = Some []"
    by (simp add: example_running_eq)
  have i: "snapshot_inv (progress example_job)" "snapshot_inv (new_progress 2)"
    by (simp_all add: example_job_fields snapshot_inv_def new_progress_def)
  have e: "\<forall>p \<in> set ([] :: MigrationProgress list). snapshot_inv p" by simp
  from snapshot_bounds_kept_by_bounded_events [OF g q i(1) e example_well_behaved]
       run_stdout_dict_lines [OF g q, of example_events] i example_well_behaved
  show ?thesis by (simp add: example_observed)
qed

text \<open>
  The engine neither clamps nor checks the counters: three \<open>table_complete\<close> messages
  for a job of two tables leave \<open>completed_tables = 3\<close>, and a \<open>progress\<close> message
  with \<open>rows_migrated = 10\<close> and \<open>total_rows = 5\<close> is stored as it comes.
\<close>

theorem snapshot_bounds_overrun_counterexample:
  "map_option (completed_tables \<circ> progress)
     (get_migration (run_ops example_running (stdout_dict_lines ''job-1'' example_overrun)) ''job-1'')
     = Some 3 \<and>
   map_option (total_tables \<circ> progress)
     (get_migration (run_ops example_running (stdout_dict_lines ''job-1'' example_overrun)) ''job-1'')
     = Some 2 \<and>
   map_option (migrated_rows \<circ> progress)
     (get_migration (run_ops example_running (stdout_dict_lines ''job-1'' example_overrun)) ''job-1'')
     = Some 10 \<and>
   map_option (total_rows \<circ> progress)
     (get_migration (run_ops example_running (stdout_dict_lines ''job-1'' example_overrun)) ''job-1'')
     = Some 5 \<and>
   map_option (snapshot_inv \<circ> progress)
     (get_migration (run_ops example_running (stdout_dict_lines ''job-1'' example_overrun)) ''job-1'')
     = Some False"
proof -
  have g: "get_migration example_running ''job-1'' = Some example_job"
    by (simp add: example_running_get)
  have q: "map_of (progress_queues example_running) ''job-1'' = Some []"
    by (simp add: example_running_eq)
  have o: "last (progress example_job # observed_snapshots example_job example_overrun) =
     (new_progress 2)\<lparr>completed_tables := 3, current_table := Some ''users'',
        total_rows := 5, migrated_rows := 10, rows_per_second := 1 / 4,
        eta_seconds := Some (- 20)\<rparr>"
    by (simp add: example_overrun_def example_job_def progress_msg_def table_complete_msg_def
      parse_progress_def apply_message_def update_rate_def get_default_def
      new_progress_def py_int_def Let_def)
  from run_stdout_dict_lines [OF g q, of example_overrun] o
  show ?thesis by (simp add: new_progress_def snapshot_inv_def)
qed


section \<open>Jobs in a terminal status\<close>

lemma get_migration_step_other:
  "op_job op \<noteq> mid \<Longrightarrow> get_migration (step eng op) mid = get_migration eng mid"
proof (cases op)
  case (Create new_id config)
  assume "op_job op \<noteq> mid"
  with Create show ?thesis
    by (simp add: create_migration_def Let_def get_migration_def update_conv')
next
  case (Start cm k now)
  assume "op_job op \<noteq> mid"
  with Start show ?thesis
    by (auto simp: start_migration_def Let_def get_migration_mutate split: option.splits)
next
  case (Pause k)
  assume "op_job op \<noteq> mid"
  with Pause show ?thesis
    by (auto simp: pause_migration_def get_migration_mutate split: option.splits)
next
  case (Cancel k t now)
  assume "op_job op \<noteq> mid"
  with Cancel show ?thesis
    by (auto simp: cancel_migration_def get_migration_mutate split: option.splits)
next
  case (Spawned k pid)
  assume "op_job op \<noteq> mid"
  with Spawned show ?thesis by (simp add: run_spawned_def get_migration_mutate)
next
  case (Spawn_file_not_found k now)
  assume "op_job op \<noteq> mid"
  with Spawn_file_not_found show ?thesis
    by (simp add: run_file_not_found_def get_migration_run_finally get_migration_mutate)
next
  case (Task_exception k msg now)
  assume "op_job op \<noteq> mid"
  with Task_exception show ?thesis
    by (simp add: run_exception_def get_migration_run_finally get_migration_mutate)
next
  case (Stdout_line k lin now)
  assume "op_job op \<noteq> mid"
  with Stdout_line show ?thesis
    by (auto simp: run_stdout_line_def read_progress_def run_exception_def Let_def
        get_migration_run_finally get_migration_mutate split: option.splits line.splits)
next
  case (Stderr_line k lin now)
  assume "op_job op \<noteq> mid"
  with Stderr_line show ?thesis
    by (auto simp: run_stderr_line_def read_errors_def run_exception_def
        get_migration_run_finally get_migration_mutate split: option.splits line.splits)
next
  case (Exited k rc now)
  assume "op_job op \<noteq> mid"
  with Exited show ?thesis
    by (simp add: run_exit_def get_migration_run_finally get_migration_mutate)
qed

lemma read_progress_changes_progress_only:
  assumes "get_migration eng mid = Some m" and "read_progress mid lin now eng = Inr eng'"
  shows "\<exists>p. get_migration eng' mid = Some (m\<lparr>progress := p\<rparr>)"
  using assms
  by (cases lin)
     (auto simp: read_progress_def Let_def get_migration_mutate
        intro: exI [of _ "progress m"])

lemma read_errors_changes_error_only:
  assumes "get_migration eng mid = Some m" and "read_errors mid lin eng = Inr eng'"
  shows "\<exists>e. get_migration eng' mid = Some (m\<lparr>error := e\<rparr>)"
  using assms
  by (cases lin)
     (auto simp: read_errors_def get_migration_mutate split: if_splits
        intro: exI [of _ "error m"])

text \<open>
  C1. For a job in a terminal status (Completed, Failed or Cancelled):
  \<open>start_migration\<close> and \<open>pause_migration\<close> fail with their invalid-state
  \<open>ValueError\<close> and leave the whole engine state unchanged; no operation and no step
  of a task that is addressed to another job changes its record; and a line of its own
  child that the reader handles without an exception changes nothing but the progress
  snapshot (stdout) or the error message (stderr), so neither the status nor a
  timestamp.
\<close>

theorem terminal_job_guards:
  assumes "get_migration eng mid = Some m" and "is_terminal (status m)"
  shows "start_migration eng cm mid now = (eng, Inl (ValueError_cannot_start (status m))) \<and>
         pause_migration eng mid = (eng, Inl ValueError_can_only_pause_running) \<and>
         (\<forall>op. op_job op \<noteq> mid \<longrightarrow> get_migration (step eng op) mid = Some m) \<and>
         (\<forall>lin eng'. read_progress mid lin now eng = Inr eng' \<longrightarrow>
            (\<exists>p. get_migration eng' mid = Some (m\<lparr>progress := p\<rparr>))) \<and>
         (\<forall>lin eng'. read_errors mid lin eng = Inr eng' \<longrightarrow>
            (\<exists>e. get_migration eng' mid = Some (m\<lparr>error := e\<rparr>)))"
proof -
  from assms have "start_migration eng cm mid now = (eng, Inl (ValueError_cannot_start (status m)))"
    by (auto simp: start_migration_def is_terminal_def)
  moreover from assms have "pause_migration eng mid = (eng, Inl ValueError_can_only_pause_running)"
    by (auto simp: pause_migration_def is_terminal_def)
  moreover have "\<forall>op. op_job op \<noteq> mid \<longrightarrow> get_migration (step eng op) mid = Some m"
    using assms(1) by (simp add: get_migration_step_other)
  moreover have "\<forall>lin eng'. read_progress mid lin now eng = Inr eng' \<longrightarrow>
            (\<exists>p. get_migration eng' mid = Some (m\<lparr>progress := p\<rparr>))"
    using read_progress_changes_progress_only [OF assms(1)] by blast
  moreover have "\<forall>lin eng'. read_errors mid lin eng = Inr eng' \<longrightarrow>
            (\<exists>e. get_migration eng' mid = Some (m\<lparr>error := e\<rparr>))"
    using read_errors_changes_error_only [OF assms(1)] by blast
  ultimately show ?thesis by blast
qed

theorem terminal_job_guards_witness:
  "map_option status (get_migration example_completed ''job-1'') = Some COMPLETED \<and>
   start_migration example_completed example_cm ''job-1'' 300
     = (example_completed, Inl (ValueError_cannot_start COMPLETED)) \<and>
   pause_migration example_completed ''job-1''
     = (example_completed, Inl ValueError_can_only_pause_running) \<and>
   get_migration (step example_completed (Create ''job-2'' example_config)) ''job-1''
     = get_migration example_completed ''job-1'' \<and>
   map_option status
     (get_migration (run_stdout_line ''job-1'' (Loads_Dict table_complete_msg) 160
        (fst (cancel_migration example_running ''job-1'' False 150))) ''job-1'')
     = Some CANCELLED \<and>
   map_option completed_at
     (get_migration (run_stdout_line ''job-1'' (Loads_Dict table_complete_msg) 160
        (fst (cancel_migration example_running ''job-1'' False 150))) ''job-1'')
     = Some (Some 150)"
proof -
  let ?m = "example_job\<lparr>status := COMPLETED, completed_at := Some 200\<rparr>"
  have g: "get_migration example_completed ''job-1'' = Some ?m"
    by (simp add: example_completed_def run_exit_def get_migration_run_finally
        get_migration_mutate example_running_get on_exit_def)
  have t: "is_terminal (status ?m)" by (simp add: is_terminal_def)
  have n: "op_job (Create ''job-2'' example_config) \<noteq> ''job-1''" by simp
  note guards = terminal_job_guards [OF g t, of example_cm 300]
  from guards n
  have other: "get_migration (step example_completed (Create ''job-2'' example_config)) ''job-1''
                 = Some ?m"
    by blast
  let ?c = "fst (cancel_migration example_running ''job-1'' False 150)"
  let ?mc = "example_job\<lparr>status := CANCELLED, completed_at := Some 150\<rparr>"
  have gc: "get_migration ?c ''job-1'' = Some ?mc"
    by (simp add: cancel_migration_def example_running_get get_migration_mutate)
  have tc: "is_terminal (status ?mc)" by (simp add: is_terminal_def)
  obtain eng' where r: "read_progress ''job-1'' (Loads_Dict table_complete_msg) 160 ?c = Inr eng'"
    using read_progress_dict [OF gc] by blast
  with terminal_job_guards [OF gc tc, of example_cm 160]
  obtain p where "get_migration eng' ''job-1'' = Some (?mc\<lparr>progress := p\<rparr>)"
    by blast
  with r have line: "get_migration (run_stdout_line ''job-1'' (Loads_Dict table_complete_msg) 160 ?c)
                       ''job-1'' = Some (?mc\<lparr>progress := p\<rparr>)"
    by (simp add: run_stdout_line_def)
  from guards g other line show ?thesis by simp
qed

text \<open>
  The record of a job that has left Running is not frozen. Cancelling a Completed job
  makes it Cancelled. And for a running job that is cancelled while its child is alive:
  a later \<open>table_complete\<close> line raises \<open>completed_tables\<close> from 0 to 1 under
  status Cancelled, and the exit of the child with code 0 turns Cancelled into
  Completed.
\<close>

theorem terminal_job_changes_counterexample:
  "map_option status (get_migration example_completed ''job-1'') = Some COMPLETED \<and>
   map_option status
     (get_migration (run_ops example_completed [Cancel ''job-1'' False 300]) ''job-1'')
     = Some CANCELLED \<and>
   map_option status
     (get_migration (run_ops example_running [Cancel ''job-1'' False 150]) ''job-1'')
     = Some CANCELLED \<and>
   map_option (completed_tables \<circ> progress)
     (get_migration (run_ops example_running [Cancel ''job-1'' False 150]) ''job-1'') = Some 0 \<and>
   map_option (completed_tables \<circ> progress)
     (get_migration (run_ops example_running
        [Cancel ''job-1'' False 150, Stdout_line ''job-1'' (Loads_Dict table_complete_msg) 160])
        ''job-1'') = Some 1 \<and>
   map_option status
     (get_migration (run_ops example_running
        [Cancel ''job-1'' False 150, Stdout_line ''job-1'' (Loads_Dict table_complete_msg) 160,
         Exited ''job-1'' 0 200]) ''job-1'') = Some COMPLETED"
  by (simp add: example_completed_def example_running_eq engine_eval example_job_def
      new_progress_def table_complete_msg_def parse_progress_def apply_message_def
      update_rate_def get_default_def)

end
